theory Spec2Isabelle
  imports Complex_Main
begin

section \<open>Errors and NumPy scalars\<close>

text \<open>
  The exceptions the functions of \<^verbatim>\<open>pyxem/utils/expt_utils.py\<close> can let escape or
  catch.  Floating-point numbers are idealised as reals throughout.
\<close>

datatype error =
    ValueError
  | IndexError
  | ZeroDivisionError
  | NotImplementedError
  | UnboundLocalError

subsection \<open>Floats that may be NaN\<close>

text \<open>
  Coordinates, angles and the pixels of the beam-finding functions are reals.  Where a
  claim depends on what the code does with NaN (the pixels that
  \<^verbatim>\<open>reproject_cartesian_to_polar\<close> interpolates and clamps, and the errors that
  \<^verbatim>\<open>find_beam_offset_cross_correlation\<close> records), a value is a number or NaN;
  infinities are left out.  A comparison with a NaN operand is false.
\<close>

datatype float = NaN | Val real

definition fless :: "float \<Rightarrow> float \<Rightarrow> bool" where
  "fless a b = (case a of NaN \<Rightarrow> False | Val x \<Rightarrow> (case b of NaN \<Rightarrow> False | Val y \<Rightarrow> x < y))"

definition fle :: "float \<Rightarrow> float \<Rightarrow> bool" where
  "fle a b = (case a of NaN \<Rightarrow> False | Val x \<Rightarrow> (case b of NaN \<Rightarrow> False | Val y \<Rightarrow> x \<le> y))"

subsection \<open>\<^verbatim>\<open>np.arctan2\<close>\<close>

text \<open>
  The two-argument arctangent with the quadrant conventions of C's \<^verbatim>\<open>atan2\<close>, which
  \<^verbatim>\<open>np.arctan2(y, x)\<close> follows: the result is the angle of the point \<open>(x, y)\<close> in
  \<open>(-\<pi>, \<pi>]\<close>, and \<open>0\<close> at the origin.
\<close>

definition arctan2 :: "real \<Rightarrow> real \<Rightarrow> real" where
  "arctan2 y x =
     (if 0 < x then arctan (y / x)
      else if x < 0 then (if 0 \<le> y then arctan (y / x) + pi else arctan (y / x) - pi)
      else if 0 < y then pi / 2
      else if y < 0 then - (pi / 2)
      else 0)"

subsection \<open>Two-dimensional arrays\<close>

text \<open>
  A two-dimensional \<^verbatim>\<open>np.ndarray\<close>: its shape and its buffer in row-major order.  The
  element \<open>[i, j]\<close> of an array \<open>a\<close> is \<open>buf a ! (i * ncols a + j)\<close>.  The entries are reals,
  or floats where NaN matters.
\<close>

record 'a ndarray =
  nrows :: nat
  ncols :: nat
  buf :: "'a list"

definition wf_array :: "'a ndarray \<Rightarrow> bool" where
  "wf_array a = (length (buf a) = nrows a * ncols a)"

definition item :: "'a ndarray \<Rightarrow> nat \<Rightarrow> nat \<Rightarrow> 'a" where
  "item a i j = buf a ! (i * ncols a + j)"

definition tabulate2 :: "nat \<Rightarrow> nat \<Rightarrow> (nat \<Rightarrow> nat \<Rightarrow> 'a) \<Rightarrow> 'a ndarray" where
  "tabulate2 m n f =
     \<lparr>nrows = m, ncols = n, buf = concat (map (\<lambda>i. map (f i) [0..<n]) [0..<m])\<rparr>"

subsection \<open>\<^verbatim>\<open>np.linspace\<close>, \<^verbatim>\<open>np.arange\<close>, \<^verbatim>\<open>np.argmax\<close>, \<^verbatim>\<open>np.argmin\<close>\<close>

text \<open>
  \<^verbatim>\<open>np.linspace(start, stop, num)\<close> with the default \<^verbatim>\<open>endpoint=True\<close>: \<open>num\<close> samples with
  step \<open>(stop - start) / (num - 1)\<close>, the last of them \<open>stop\<close>; a single sample is
  \<open>start\<close>; a negative \<open>num\<close> raises \<^verbatim>\<open>ValueError\<close>.
\<close>

definition linspace :: "real \<Rightarrow> real \<Rightarrow> int \<Rightarrow> error + real list" where
  "linspace start stop num =
     (if num < 0 then Inl ValueError
      else if num = 1 then Inr [start]
      else Inr (map (\<lambda>i. start + real i * ((stop - start) / real (nat num - 1)))
                 [0..<nat num]))"

text \<open>\<^verbatim>\<open>np.arange(start, stop)\<close> on integers, with step \<open>1\<close>.\<close>

definition arange :: "int \<Rightarrow> int \<Rightarrow> int list" where
  "arange start stop = [start..stop - 1]"

text \<open>
  \<^verbatim>\<open>np.argmax\<close> and \<^verbatim>\<open>np.argmin\<close> return the index of the first occurrence of the
  extreme value, and raise \<^verbatim>\<open>ValueError\<close> on an empty array.  \<^verbatim>\<open>np.argmin\<close> is taken
  of floats: it returns the index of the first NaN when there is one.  So an entry \<open>x\<close>
  is preferred to a later entry \<open>y\<close> when \<open>x\<close> is NaN, or both are numbers and \<open>x \<le> y\<close>.
\<close>

definition le_or_nan :: "float \<Rightarrow> float \<Rightarrow> bool" where
  "le_or_nan x y = (case x of NaN \<Rightarrow> True | Val a \<Rightarrow> (case y of NaN \<Rightarrow> False | Val b \<Rightarrow> a \<le> b))"

fun first_max :: "real list \<Rightarrow> nat" where
  "first_max [] = 0"
| "first_max [x] = 0"
| "first_max (x # xs) = (let j = first_max xs in if xs ! j \<le> x then 0 else Suc j)"

fun first_min :: "float list \<Rightarrow> nat" where
  "first_min [] = 0"
| "first_min [x] = 0"
| "first_min (x # xs) = (let j = first_min xs in if le_or_nan x (xs ! j) then 0 else Suc j)"

definition argmax :: "real list \<Rightarrow> error + nat" where
  "argmax xs = (if xs = [] then Inl ValueError else Inr (first_max xs))"

definition argmin :: "float list \<Rightarrow> error + nat" where
  "argmin xs = (if xs = [] then Inl ValueError else Inr (first_min xs))"

section \<open>Coordinate transforms\<close>

definition cart2polar :: "real \<Rightarrow> real \<Rightarrow> real \<times> real" where
  "cart2polar x y =
     (let r = sqrt (x\<^sup>2 + y\<^sup>2);
          theta = - arctan2 y x
      in (r, theta))"

definition polar2cart :: "real \<Rightarrow> real \<Rightarrow> real \<times> real" where
  "polar2cart r theta =
     (let x = r * cos theta;
          y = - r * sin theta
      in (x, y))"

subsection \<open>\<^verbatim>\<open>ellipsoid_in_cartesian\<close>\<close>

text \<open>
  The points of the ellipses of radii \<open>r_list\<close> at the angles \<open>theta_list\<close>.  The product
  of the column of radii with the row of sines (cosines) is the array with entry
  \<open>r_list ! i * sin (theta_list ! j)\<close> at \<open>[i, j]\<close>.  \<^verbatim>\<open>max\<close> of an empty
  \<open>axes_lengths\<close> raises \<^verbatim>\<open>ValueError\<close>, and a zero average
  \<^verbatim>\<open>ZeroDivisionError\<close>.
\<close>

definition ellipsoid_in_cartesian ::
  "real list \<Rightarrow> real list \<Rightarrow> real \<times> real \<Rightarrow> real list option \<Rightarrow> real option
     \<Rightarrow> error + (real ndarray \<times> real ndarray)" where
  "ellipsoid_in_cartesian r_list theta_list center axes_lengths angle =
     (case (case axes_lengths of
              Some ls \<Rightarrow>
                (let axes_avg = sum_list ls / 2
                 in if ls = [] then Inl ValueError
                    else if axes_avg = 0 then Inl ZeroDivisionError
                    else Inr (Max (set ls) / axes_avg, Min (set ls) / axes_avg))
            | None \<Rightarrow> Inr (1, 1)) of
        Inl e \<Rightarrow> Inl e
      | Inr (h_o, k_o) \<Rightarrow>
          (let n = length r_list; m = length theta_list;
               x_circle = (\<lambda>i j. r_list ! i * sin (theta_list ! j) * h_o);
               y_circle = (\<lambda>i j. r_list ! i * cos (theta_list ! j) * k_o)
           in case angle of
                Some a \<Rightarrow>
                  (let cos_angle = cos a; sin_angle = sin a
                   in Inr (tabulate2 n m (\<lambda>i j. x_circle i j * cos_angle
                                                  - y_circle i j * sin_angle + fst center),
                           tabulate2 n m (\<lambda>i j. y_circle i j * cos_angle
                                                  + x_circle i j * sin_angle + snd center)))
              | None \<Rightarrow>
                  Inr (tabulate2 n m (\<lambda>i j. x_circle i j + fst center),
                       tabulate2 n m (\<lambda>i j. y_circle i j + snd center))))"

section \<open>Polar reprojection\<close>

subsection \<open>Images and masks\<close>

text \<open>
  The image argument of \<^verbatim>\<open>reproject_cartesian_to_polar\<close>: its \<^verbatim>\<open>data\<close> buffer, whose
  pixels may be NaN (\<^verbatim>\<open>remove_dead\<close> with \<^verbatim>\<open>deadvalue='nan'\<close> writes such pixels), and, for a
  masked array, its boolean \<^verbatim>\<open>mask\<close> in the same row-major order.  \<open>mask = None\<close> is an
  object without a \<^verbatim>\<open>mask\<close> attribute.  The record is the caller's object: the function
  returns its state after the call together with the result.
\<close>

record image =
  data :: "float ndarray"
  mask :: "bool list option"

text \<open>
  Lines 327 to 330: \<^verbatim>\<open>intensity[img.mask] = -999999\<close> under \<^verbatim>\<open>try\<close>.  \<^verbatim>\<open>intensity\<close> is
  \<^verbatim>\<open>img.data\<close> itself, not a copy, so the assignment writes into the caller's buffer.
  A missing \<^verbatim>\<open>mask\<close> attribute raises the \<^verbatim>\<open>AttributeError\<close> that is caught and
  ignored; a boolean index of the wrong size raises \<^verbatim>\<open>IndexError\<close>, which is not.
\<close>

definition masked_fill :: "image \<Rightarrow> error + image" where
  "masked_fill img =
     (case mask img of
        None \<Rightarrow> Inr img
      | Some mk \<Rightarrow>
          if length mk \<noteq> length (buf (data img)) then Inl IndexError
          else Inr (img\<lparr>data := (data img)
                 \<lparr>buf := map2 (\<lambda>b v. if b then Val (- 999999) else v) mk (buf (data img))\<rparr>\<rparr>))"

subsection \<open>\<^verbatim>\<open>np.reshape\<close> to two dimensions\<close>

text \<open>
  A negative entry of the new shape is the one unknown dimension, inferred from the
  size; two of them, or a shape that does not hold the buffer, raise \<^verbatim>\<open>ValueError\<close>.
\<close>

definition reshape :: "'a ndarray \<Rightarrow> int \<times> int \<Rightarrow> error + 'a ndarray" where
  "reshape a newshape =
     (let p = fst newshape; q = snd newshape; n = length (buf a)
      in if p < 0 \<and> q < 0 then Inl ValueError
         else if p < 0 then
           (if q = 0 \<or> n mod nat q \<noteq> 0 then Inl ValueError
            else Inr \<lparr>nrows = n div nat q, ncols = nat q, buf = buf a\<rparr>)
         else if q < 0 then
           (if p = 0 \<or> n mod nat p \<noteq> 0 then Inl ValueError
            else Inr \<lparr>nrows = nat p, ncols = n div nat p, buf = buf a\<rparr>)
         else if nat p * nat q \<noteq> n then Inl ValueError
         else Inr \<lparr>nrows = nat p, ncols = nat q, buf = buf a\<rparr>)"

subsection \<open>SciPy's \<^verbatim>\<open>RectBivariateSpline\<close> with \<^verbatim>\<open>kx=1, ky=1\<close>\<close>

text \<open>
  The library's constructor is a parameter \<open>bispl\<close> of the reprojection: given the two
  grids and the data it raises or returns the spline, a function of a point.  The
  definitions below are one instance, following SciPy's documentation for the
  unit-spaced grids \<^verbatim>\<open>range(0, n)\<close> the reprojection passes: the data must have shape
  \<open>(length x, length y)\<close>, each grid needs at least two points, and the interpolating
  spline of degree one is the bilinear interpolant of the four neighbours, with points
  outside the grid moved to its boundary.  In floating point the weighted sum is NaN as
  soon as one of the four neighbours is, whatever its weight.
\<close>

definition bilinear :: "float ndarray \<Rightarrow> real \<Rightarrow> real \<Rightarrow> float" where
  "bilinear z u v =
     (let cu = max 0 (min (real (nrows z - 1)) u);
          cv = max 0 (min (real (ncols z - 1)) v);
          i = min (nat \<lfloor>cu\<rfloor>) (nrows z - 2);
          j = min (nat \<lfloor>cv\<rfloor>) (ncols z - 2);
          du = cu - real i;
          dv = cv - real j
      in case (item z i j, item z (i + 1) j, item z i (j + 1), item z (i + 1) (j + 1)) of
           (Val z00, Val z10, Val z01, Val z11) \<Rightarrow>
             Val (z00 * (1 - du) * (1 - dv) + z10 * du * (1 - dv)
                  + z01 * (1 - du) * dv + z11 * du * dv)
         | _ \<Rightarrow> NaN)"

definition RectBivariateSpline ::
  "nat list \<Rightarrow> nat list \<Rightarrow> float ndarray \<Rightarrow> error + (real \<Rightarrow> real \<Rightarrow> float)" where
  "RectBivariateSpline x y z =
     (if length x \<noteq> nrows z then Inl ValueError
      else if length y \<noteq> ncols z then Inl ValueError
      else if length x < 2 \<or> length y < 2 then Inl ValueError
      else Inr (bilinear z))"

text \<open>\<^verbatim>\<open>spline.ev(xi, yi)\<close>: the spline at each pair of entries, in the shape of \<open>xi\<close>.\<close>

definition ev :: "(real \<Rightarrow> real \<Rightarrow> float) \<Rightarrow> real ndarray \<Rightarrow> real ndarray \<Rightarrow> float ndarray" where
  "ev spline xi yi =
     \<lparr>nrows = nrows xi, ncols = ncols xi, buf = map2 spline (buf xi) (buf yi)\<rparr>"

subsection \<open>\<^verbatim>\<open>reproject_cartesian_to_polar\<close>\<close>

text \<open>Lines 316 and 317: the angular and the radial samples.\<close>

definition final_the :: "int \<Rightarrow> error + real list" where
  "final_the phase_width = linspace 0 (2 * pi) phase_width"

definition final_rad :: "int \<times> int \<Rightarrow> int list" where
  "final_rad radius = arange (fst radius) (snd radius)"

text \<open>Line 315: \<^verbatim>\<open>np.true_divide(img_shape[-2:], 2)\<close>, half the number of rows and of columns.\<close>

definition default_center :: "'a ndarray \<Rightarrow> real \<times> real" where
  "default_center a = (real (nrows a) / 2, real (ncols a) / 2)"

text \<open>
  Line 336: \<^verbatim>\<open>polar_img[polar_img < 0] = -10\<close>.  For a NaN sample the comparison is false
  and the sample stays.
\<close>

definition clamp_negative :: "float ndarray \<Rightarrow> float ndarray" where
  "clamp_negative a = a\<lparr>buf := map (\<lambda>v. if fless v (Val 0) then Val (- 10) else v) (buf a)\<rparr>"

definition reproject_cartesian_to_polar ::
  "(nat list \<Rightarrow> nat list \<Rightarrow> float ndarray \<Rightarrow> error + (real \<Rightarrow> real \<Rightarrow> float))
     \<Rightarrow> image \<Rightarrow> (real \<times> real) option \<Rightarrow> real option \<Rightarrow> real list option
     \<Rightarrow> int \<times> int \<Rightarrow> int \<Rightarrow> image \<times> (error + float ndarray)" where
  "reproject_cartesian_to_polar bispl img center angle lengths radius phase_width =
     (let initial_y = [0..<nrows (data img)];
          initial_x = [0..<ncols (data img)];
          center = (case center of None \<Rightarrow> default_center (data img) | Some c \<Rightarrow> c)
      in case final_the phase_width of
           Inl e \<Rightarrow> (img, Inl e)
         | Inr thetas \<Rightarrow>
             (case ellipsoid_in_cartesian (map real_of_int (final_rad radius)) thetas
                     center lengths angle of
                Inl e \<Rightarrow> (img, Inl e)
              | Inr (final_x, final_y) \<Rightarrow>
                  (case masked_fill img of
                     Inl e \<Rightarrow> (img, Inl e)
                   | Inr img' \<Rightarrow>
                       (case bispl initial_x initial_y (data img') of
                          Inl e \<Rightarrow> (img', Inl e)
                        | Inr spline \<Rightarrow>
                            (case reshape (ev spline final_x final_y)
                                    (snd radius - fst radius, phase_width) of
                               Inl e \<Rightarrow> (img', Inl e)
                             | Inr polar_img \<Rightarrow> (img', Inr (clamp_negative polar_img)))))))"

text \<open>
  What a call needs in order to reach the spline: a non-empty \<open>lengths\<close> with a non-zero
  sum, and a mask of the size of the data.
\<close>

definition axes_ok :: "real list option \<Rightarrow> bool" where
  "axes_ok lengths = (case lengths of None \<Rightarrow> True | Some ls \<Rightarrow> ls \<noteq> [] \<and> sum_list ls \<noteq> 0)"

definition mask_ok :: "image \<Rightarrow> bool" where
  "mask_ok img =
     (case mask img of None \<Rightarrow> True | Some mk \<Rightarrow> length mk = length (buf (data img)))"

subsection \<open>Sample images\<close>

text \<open>
  A two by two image with one negative pixel, as a plain array and as a masked array
  whose pixel \<open>[1, 0]\<close> is masked; and a plain two by two image whose pixel \<open>[0, 1]\<close> is
  NaN.
\<close>

definition img_plain :: image where
  "img_plain = \<lparr>data = \<lparr>nrows = 2, ncols = 2, buf = [Val 5, Val (- 3), Val 2, Val 7]\<rparr>,
                 mask = None\<rparr>"

definition img_masked :: image where
  "img_masked = \<lparr>data = \<lparr>nrows = 2, ncols = 2, buf = [Val 5, Val (- 3), Val 2, Val 7]\<rparr>,
                  mask = Some [False, False, True, False]\<rparr>"

definition img_nan :: image where
  "img_nan = \<lparr>data = \<lparr>nrows = 2, ncols = 2, buf = [Val 5, NaN, Val 2, Val 7]\<rparr>,
               mask = None\<rparr>"

section \<open>Peak location in one dimension\<close>

subsection \<open>Python slices\<close>

text \<open>
  \<^verbatim>\<open>xs[a:b]\<close>: a negative bound counts from the end, and both bounds are then cut to
  the list, so a slice never raises.
\<close>

definition py_slice :: "'a list \<Rightarrow> int \<Rightarrow> int \<Rightarrow> 'a list" where
  "py_slice xs a b =
     (let n = int (length xs);
          lo = (if a < 0 then max (a + n) 0 else min a n);
          hi = (if b < 0 then max (b + n) 0 else min b n)
      in take (nat (hi - lo)) (drop (nat lo) xs))"

subsection \<open>SciPy's \<^verbatim>\<open>interp1d\<close>\<close>

text \<open>
  The \<^verbatim>\<open>kind\<close> argument is a name or the order of a spline.  The constructor first
  compares the lengths of \<open>x\<close> and \<open>y\<close> and raises \<^verbatim>\<open>ValueError\<close> when they differ
  (the error \<^verbatim>\<open>_find_peak_max\<close> catches near the edges), then rejects a name it does
  not know with \<^verbatim>\<open>NotImplementedError\<close>, and then fits the interpolant.  The fit
  itself is a parameter: it raises or returns the interpolant, a function of a point.
\<close>

datatype kind = KindName string | KindOrder int

definition known_kinds :: "string list" where
  "known_kinds = [''linear'', ''nearest'', ''zero'', ''slinear'', ''quadratic'', ''cubic'',
                  ''previous'', ''next'']"

definition interp1d ::
  "(kind \<Rightarrow> real list \<Rightarrow> real list \<Rightarrow> error + (real \<Rightarrow> real))
     \<Rightarrow> real list \<Rightarrow> real list \<Rightarrow> kind \<Rightarrow> error + (real \<Rightarrow> real)" where
  "interp1d fit x y k =
     (if length y \<noteq> length x then Inl ValueError
      else case k of
             KindName name \<Rightarrow>
               if name \<in> set known_kinds then fit k x y else Inl NotImplementedError
           | KindOrder order \<Rightarrow> fit k x y)"

subsection \<open>\<^verbatim>\<open>_find_peak_max\<close>\<close>

text \<open>
  The Gaussian smoothing \<^verbatim>\<open>gaussian_filter1d\<close> is a parameter.  The \<^verbatim>\<open>argmax\<close> of the
  smoothed signal stands before the \<^verbatim>\<open>try\<close>, so its \<^verbatim>\<open>ValueError\<close> on an empty signal
  escapes; a \<^verbatim>\<open>ValueError\<close> of the body of the \<^verbatim>\<open>try\<close> is caught and gives \<open>c1\<close>; any
  other error escapes.
\<close>

definition find_peak_max ::
  "(real list \<Rightarrow> real \<Rightarrow> real list)
     \<Rightarrow> (kind \<Rightarrow> real list \<Rightarrow> real list \<Rightarrow> error + (real \<Rightarrow> real))
     \<Rightarrow> real list \<Rightarrow> real \<Rightarrow> int \<Rightarrow> int \<Rightarrow> kind \<Rightarrow> error + real" where
  "find_peak_max gaussian_filter1d fit arr sigma upsample_factor window k =
     (let y1 = gaussian_filter1d arr sigma
      in case argmax y1 of
           Inl e \<Rightarrow> Inl e
         | Inr c1 \<Rightarrow>
             (let m = upsample_factor;
                  w = window;
                  win_len = 2 * w + 1;
                  lo = real_of_int (int c1 - w);
                  hi = real_of_int (int c1 + w);
                  attempt =
                    (case linspace lo hi win_len of
                       Inl e \<Rightarrow> Inl e
                     | Inr r1 \<Rightarrow>
                         (case interp1d fit r1 (py_slice y1 (int c1 - w) (int c1 + w + 1)) k of
                            Inl e \<Rightarrow> Inl e
                          | Inr f \<Rightarrow>
                              (case linspace lo hi (win_len * m) of
                                 Inl e \<Rightarrow> Inl e
                               | Inr r2 \<Rightarrow>
                                   (case argmax (map f r2) of
                                      Inl e \<Rightarrow> Inl e
                                    | Inr i2 \<Rightarrow> Inr (real i2 / real_of_int m)))))
              in case attempt of
                   Inl ValueError \<Rightarrow> Inr (real c1)
                 | Inl e \<Rightarrow> Inl e
                 | Inr c2 \<Rightarrow> Inr (c2 + real c1 - real_of_int w)))"

subsection \<open>Instances of the library parameters\<close>

text \<open>
  A three-tap smoothing with the reflecting boundary of \<^verbatim>\<open>gaussian_filter1d\<close>, and the
  piecewise-linear interpolant, which is SciPy's for \<^verbatim>\<open>'linear'\<close>; they instantiate the
  parameters in the evaluated examples.
\<close>

definition smooth3 :: "real list \<Rightarrow> real \<Rightarrow> real list" where
  "smooth3 arr sigma =
     map (\<lambda>i. (arr ! (i - 1) + 2 * arr ! i + arr ! (min (i + 1) (length arr - 1))) / 4)
       [0..<length arr]"

definition linear_fit :: "kind \<Rightarrow> real list \<Rightarrow> real list \<Rightarrow> error + (real \<Rightarrow> real)" where
  "linear_fit k x y =
     (if length x < 2 then Inl ValueError
      else Inr (\<lambda>t. let i = min (length (filter (\<lambda>u. u \<le> t) (tl x)))  (length x - 2)
                    in y ! i + (y ! (i + 1) - y ! i) * (t - x ! i) / (x ! (i + 1) - x ! i)))"

section \<open>Median background subtraction\<close>

text \<open>
  The arithmetic of the two numeric branches depends on the dtype of the image, so it is
  taken as parameters: SciPy's \<^verbatim>\<open>ndi.median_filter(z, size=footprint)\<close>; the whole
  expression \<^verbatim>\<open>filters.median(z.astype(np.uint16), selem).astype(z.dtype)\<close> of the skimage
  branch; and the subtraction of the image's dtype, which wraps on an unsigned image.
  \<open>minus_array\<close> is the subtraction of a floating dtype.
\<close>

definition minus_array :: "real ndarray \<Rightarrow> real ndarray \<Rightarrow> real ndarray" where
  "minus_array a b = a\<lparr>buf := map2 (-) (buf a) (buf b)\<rparr>"

definition maximum0 :: "real ndarray \<Rightarrow> real ndarray" where
  "maximum0 a = a\<lparr>buf := map (\<lambda>v. max v 0) (buf a)\<rparr>"

definition subtract_background_median ::
  "(real ndarray \<Rightarrow> nat \<Rightarrow> real ndarray) \<Rightarrow> (real ndarray \<Rightarrow> nat \<Rightarrow> real ndarray)
     \<Rightarrow> (real ndarray \<Rightarrow> real ndarray \<Rightarrow> real ndarray)
     \<Rightarrow> real ndarray \<Rightarrow> nat \<Rightarrow> string \<Rightarrow> error + real ndarray" where
  "subtract_background_median median_filter skimage_median subtract z footprint implementation =
     (if implementation = ''scipy'' then
        Inr (maximum0 (subtract z (median_filter z footprint)))
      else if implementation = ''skimage'' then
        Inr (maximum0 (subtract z (skimage_median z footprint)))
      else Inl ValueError)"

section \<open>Beam center by blurring\<close>




definition img_2x3 :: "real ndarray" where
  "img_2x3 = \<lparr>nrows = 2, ncols = 3, buf = [1, 2, 3, 9, 5, 4]\<rparr>"

section \<open>Beam offset by cross-correlation\<close>

subsection \<open>Python's \<^verbatim>\<open>round\<close> and \<^verbatim>\<open>np.hanning\<close>\<close>

text \<open>\<^verbatim>\<open>round\<close> of a float rounds a tie to the even neighbour.\<close>

definition py_round :: "real \<Rightarrow> int" where
  "py_round x =
     (let f = \<lfloor>x\<rfloor>; d = x - real_of_int f
      in if d < 1 / 2 then f
         else if 1 / 2 < d then f + 1
         else if even f then f else f + 1)"

definition hanning :: "nat \<Rightarrow> real list" where
  "hanning M =
     (if M < 1 then []
      else if M = 1 then [1]
      else map (\<lambda>n. 1 / 2 - 1 / 2 * cos (2 * pi * real n / real (M - 1))) [0..<M])"

text \<open>The elementwise product of two arrays of one shape.\<close>

definition times_array :: "real ndarray \<Rightarrow> real ndarray \<Rightarrow> real ndarray" where
  "times_array a b = a\<lparr>buf := map2 (*) (buf a) (buf b)\<rparr>"

subsection \<open>\<^verbatim>\<open>reference_circle\<close>\<close>

text \<open>
  \<^verbatim>\<open>img[rr, cc] = 1\<close> for index arrays \<open>rr\<close>, \<open>cc\<close>, given as the list of their pairs: a
  negative index counts from the end, and an index outside the array raises
  \<^verbatim>\<open>IndexError\<close>.
\<close>

definition wrap_index :: "nat \<Rightarrow> int \<Rightarrow> error + nat" where
  "wrap_index n i =
     (if 0 \<le> i \<and> i < int n then Inr (nat i)
      else if i < 0 \<and> - int n \<le> i then Inr (nat (i + int n))
      else Inl IndexError)"

fun set_ones :: "real ndarray \<Rightarrow> (int \<times> int) list \<Rightarrow> error + real ndarray" where
  "set_ones img [] = Inr img"
| "set_ones img ((r, c) # ps) =
     (case wrap_index (nrows img) r of
        Inl e \<Rightarrow> Inl e
      | Inr i \<Rightarrow>
          (case wrap_index (ncols img) c of
             Inl e \<Rightarrow> Inl e
           | Inr j \<Rightarrow> set_ones (img\<lparr>buf := (buf img)[i * ncols img + j := 1]\<rparr>) ps))"

text \<open>
  skimage's \<^verbatim>\<open>ellipse_perimeter(r, c, r_radius, c_radius)\<close> is a parameter; it gives the
  pixels of the perimeter as pairs \<open>(row, column)\<close>.
\<close>

fun reference_circle_loop ::
  "(int \<Rightarrow> int \<Rightarrow> int \<Rightarrow> int \<Rightarrow> (int \<times> int) list)
     \<Rightarrow> (int \<times> int) list \<Rightarrow> int \<Rightarrow> real ndarray \<Rightarrow> error + real ndarray" where
  "reference_circle_loop ellipse_perimeter [] radius img = Inr img"
| "reference_circle_loop ellipse_perimeter ((r, c) # coords) radius img =
     (case set_ones img (ellipse_perimeter r c radius radius) of
        Inl e \<Rightarrow> Inl e
      | Inr img' \<Rightarrow> reference_circle_loop ellipse_perimeter coords radius img')"

definition reference_circle ::
  "(int \<Rightarrow> int \<Rightarrow> int \<Rightarrow> int \<Rightarrow> (int \<times> int) list)
     \<Rightarrow> (int \<times> int) list \<Rightarrow> nat \<Rightarrow> nat \<Rightarrow> int \<Rightarrow> error + real ndarray" where
  "reference_circle ellipse_perimeter coords dimX dimY radius =
     reference_circle_loop ellipse_perimeter coords radius
       \<lparr>nrows = dimX, ncols = dimY, buf = replicate (dimX * dimY) 0\<rparr>"

subsection \<open>\<^verbatim>\<open>find_beam_offset_cross_correlation\<close>\<close>

text \<open>
  Lines 747 to 752, which the function repeats at lines 757 to 762: the reference
  circle about the origin, the square root of the outer product of two Hann windows,
  and the windowed reference and image.
\<close>

definition origin_of :: "real ndarray \<Rightarrow> (int \<times> int) list" where
  "origin_of z = [(py_round (real (nrows z) / 2), py_round (real (ncols z) / 2))]"

definition windowed_pair ::
  "(int \<Rightarrow> int \<Rightarrow> int \<Rightarrow> int \<Rightarrow> (int \<times> int) list)
     \<Rightarrow> real ndarray \<Rightarrow> int \<Rightarrow> error + (real ndarray \<times> real ndarray)" where
  "windowed_pair ellipse_perimeter z radius =
     (case reference_circle ellipse_perimeter (origin_of z) (nrows z) (ncols z) radius of
        Inl e \<Rightarrow> Inl e
      | Inr ref \<Rightarrow>
          (let h0 = hanning (nrows ref);
               h1 = hanning (ncols ref);
               hann2d = tabulate2 (length h0) (length h1) (\<lambda>i j. sqrt (h0 ! i * h1 ! j));
               ref = times_array hann2d ref;
               im = times_array hann2d z
           in Inr (ref, im)))"

text \<open>
  skimage's \<^verbatim>\<open>register_translation(ref, im, upsample_factor)\<close> is a parameter that raises
  or returns the shift, the error, which may be NaN, and the phase difference.

  The loop over the indices of \<open>radiusList\<close> calls it with factor \<open>10\<close>.  The state of
  the loop is the array \<open>errRecord\<close>, of single-precision floats (the conversion \<open>single\<close>
  is a parameter), and \<open>index_min\<close>, which has no value before the first pass.
\<close>

type_synonym registration = "(real \<times> real) \<times> float \<times> real"

fun radius_loop ::
  "(int \<Rightarrow> int \<Rightarrow> int \<Rightarrow> int \<Rightarrow> (int \<times> int) list)
     \<Rightarrow> (real ndarray \<Rightarrow> real ndarray \<Rightarrow> nat \<Rightarrow> error + registration)
     \<Rightarrow> (float \<Rightarrow> float) \<Rightarrow> real ndarray \<Rightarrow> int list \<Rightarrow> nat list
     \<Rightarrow> float list \<times> nat option \<Rightarrow> error + (float list \<times> nat option)" where
  "radius_loop ellipse_perimeter register_translation single z radiusList [] st = Inr st"
| "radius_loop ellipse_perimeter register_translation single z radiusList (ind # inds)
       (errRecord, index_min) =
     (let radius = radiusList ! ind
      in case windowed_pair ellipse_perimeter z radius of
           Inl e \<Rightarrow> Inl e
         | Inr (ref, im) \<Rightarrow>
             (case register_translation ref im 10 of
                Inl e \<Rightarrow> Inl e
              | Inr (shift, err, diffphase) \<Rightarrow>
                  (let errRecord = errRecord[ind := single err]
                   in case argmin errRecord of
                        Inl e \<Rightarrow> Inl e
                      | Inr i \<Rightarrow>
                          radius_loop ellipse_perimeter register_translation single z
                            radiusList inds (errRecord, Some i))))"

text \<open>
  After the loop the function registers once more, at \<open>radiusList[index_min]\<close> and with
  factor \<open>100\<close>, and returns that shift minus one half.
\<close>

definition find_beam_offset_cross_correlation ::
  "(int \<Rightarrow> int \<Rightarrow> int \<Rightarrow> int \<Rightarrow> (int \<times> int) list)
     \<Rightarrow> (real ndarray \<Rightarrow> real ndarray \<Rightarrow> nat \<Rightarrow> error + registration)
     \<Rightarrow> (float \<Rightarrow> float) \<Rightarrow> real ndarray \<Rightarrow> int \<Rightarrow> int \<Rightarrow> error + (real \<times> real)" where
  "find_beam_offset_cross_correlation ellipse_perimeter register_translation single z
       radius_start radius_finish =
     (let radiusList = arange radius_start radius_finish;
          errRecord = replicate (length radiusList) (Val 0)
      in case radius_loop ellipse_perimeter register_translation single z radiusList
                [0..<length radiusList] (errRecord, None) of
           Inl e \<Rightarrow> Inl e
         | Inr (errRecord, index_min) \<Rightarrow>
             (case index_min of
                None \<Rightarrow> Inl UnboundLocalError
              | Some i \<Rightarrow>
                  (case windowed_pair ellipse_perimeter z (radiusList ! i) of
                     Inl e \<Rightarrow> Inl e
                   | Inr (ref, im) \<Rightarrow>
                       (case register_translation ref im 100 of
                          Inl e \<Rightarrow> Inl e
                        | Inr (shift, err, diffphase) \<Rightarrow>
                            Inr (fst shift - 1 / 2, snd shift - 1 / 2)))))"

subsection \<open>Instances for the evaluated examples\<close>

text \<open>
  Stand-ins for the two skimage functions in the evaluated examples.  The perimeter is
  the four axis points of the circle.  The registration counts the pixels at which the
  two windowed images differ: it reports that count as its error, or NaN when one of the
  images is zero everywhere (the library normalises by the two amplitudes), and the
  count divided by the upsampling factor as both components of its shift.
\<close>

definition axis_points :: "int \<Rightarrow> int \<Rightarrow> int \<Rightarrow> int \<Rightarrow> (int \<times> int) list" where
  "axis_points r c r_radius c_radius =
     [(r + r_radius, c), (r - r_radius, c), (r, c + c_radius), (r, c - c_radius)]"

definition count_mismatch :: "real ndarray \<Rightarrow> real ndarray \<Rightarrow> nat \<Rightarrow> error + registration" where
  "count_mismatch ref im upsample =
     (if nrows ref \<noteq> nrows im \<or> ncols ref \<noteq> ncols im then Inl ValueError
      else let m = real (length (filter (\<lambda>(a, b). a \<noteq> b) (zip (buf ref) (buf im))))
           in Inr ((m / real upsample, m / real upsample),
                   if list_all (\<lambda>v. v = 0) (buf ref) \<or> list_all (\<lambda>v. v = 0) (buf im)
                   then NaN else Val m,
                   0))"

text \<open>
  Five by five images: a ring of radius one, the ring with its center, and what the
  Hann window leaves of the ring, of the ring with its center, of the center alone and
  of the circle of radius two (nothing).
\<close>

definition ring_5x5 :: "real ndarray" where
  "ring_5x5 = \<lparr>nrows = 5, ncols = 5,
                buf = [0, 0, 0, 0, 0,
                       0, 0, 1, 0, 0,
                       0, 1, 0, 1, 0,
                       0, 0, 1, 0, 0,
                       0, 0, 0, 0, 0]\<rparr>"

definition ring_dot_5x5 :: "real ndarray" where
  "ring_dot_5x5 = \<lparr>nrows = 5, ncols = 5,
                    buf = [0, 0, 0, 0, 0,
                           0, 0, 1, 0, 0,
                           0, 1, 1, 1, 0,
                           0, 0, 1, 0, 0,
                           0, 0, 0, 0, 0]\<rparr>"

definition ring_windowed :: "real ndarray" where
  "ring_windowed = \<lparr>nrows = 5, ncols = 5,
                     buf = [0, 0, 0, 0, 0,
                            0, 0, sqrt (1 / 2), 0, 0,
                            0, sqrt (1 / 2), 0, sqrt (1 / 2), 0,
                            0, 0, sqrt (1 / 2), 0, 0,
                            0, 0, 0, 0, 0]\<rparr>"



definition zeros_5x5 :: "real ndarray" where
  "zeros_5x5 = \<lparr>nrows = 5, ncols = 5, buf = replicate 25 0\<rparr>"

section \<open>Round trip of the coordinate transforms\<close>

lemma hypot_pos_x:
  fixes x y :: real
  assumes "0 < x"
  shows "sqrt (x\<^sup>2 + y\<^sup>2) = x * sqrt (1 + (y / x)\<^sup>2)"
proof -
  have "x\<^sup>2 + y\<^sup>2 = x\<^sup>2 * (1 + (y / x)\<^sup>2)"
    using assms by (simp add: field_simps power2_eq_square)
  then have "sqrt (x\<^sup>2 + y\<^sup>2) = sqrt (x\<^sup>2) * sqrt (1 + (y / x)\<^sup>2)"
    by (simp add: real_sqrt_mult)
  with assms show ?thesis by simp
qed

lemma hypot_neg_x:
  fixes x y :: real
  assumes "x < 0"
  shows "sqrt (x\<^sup>2 + y\<^sup>2) = - x * sqrt (1 + (y / x)\<^sup>2)"
proof -
  have "x\<^sup>2 + y\<^sup>2 = x\<^sup>2 * (1 + (y / x)\<^sup>2)"
    using assms by (simp add: field_simps power2_eq_square)
  then have "sqrt (x\<^sup>2 + y\<^sup>2) = sqrt (x\<^sup>2) * sqrt (1 + (y / x)\<^sup>2)"
    by (simp add: real_sqrt_mult)
  with assms show ?thesis by simp
qed

lemma sqrt_one_plus_sq_pos: "0 < sqrt (1 + (t::real)\<^sup>2)"
  by (simp add: add_pos_nonneg)

lemma hypot_cos_arctan2: "sqrt (x\<^sup>2 + y\<^sup>2) * cos (arctan2 y x) = x"
proof -
  consider "0 < x" | "x < 0" | "x = 0" by linarith
  then show ?thesis
  proof cases
    case 1
    then show ?thesis
      using sqrt_one_plus_sq_pos [of "y / x"]
      by (simp add: arctan2_def hypot_pos_x cos_arctan)
  next
    case 2
    then show ?thesis
      using sqrt_one_plus_sq_pos [of "y / x"]
      by (simp add: arctan2_def hypot_neg_x cos_arctan)
  next
    case 3
    then show ?thesis by (simp add: arctan2_def)
  qed
qed

lemma hypot_sin_arctan2: "sqrt (x\<^sup>2 + y\<^sup>2) * sin (arctan2 y x) = y"
proof -
  consider "0 < x" | "x < 0" | "x = 0" by linarith
  then show ?thesis
  proof cases
    case 1
    then show ?thesis
      using sqrt_one_plus_sq_pos [of "y / x"]
      by (simp add: arctan2_def hypot_pos_x sin_arctan)
  next
    case 2
    then show ?thesis
      using sqrt_one_plus_sq_pos [of "y / x"]
      by (simp add: arctan2_def hypot_neg_x sin_arctan)
  next
    case 3
    then show ?thesis by (simp add: arctan2_def)
  qed
qed

text \<open>
  Claim C1.  For every pair of reals \<open>(x, y)\<close>, converting to polar coordinates with
  \<open>cart2polar\<close> (\<open>r = sqrt (x\<^sup>2 + y\<^sup>2)\<close>, \<open>theta = - arctan2 y x\<close>) and back with
  \<open>polar2cart\<close> (\<open>x = r * cos theta\<close>, \<open>y = - r * sin theta\<close>) gives \<open>(x, y)\<close> again.
\<close>

theorem polar2cart_cart2polar:
  "(case cart2polar x y of (r, theta) \<Rightarrow> polar2cart r theta) = (x, y)"
  using hypot_cos_arctan2 [of x y] hypot_sin_arctan2 [of x y]
  by (simp add: cart2polar_def polar2cart_def)

section \<open>Arrays: indexing and extremes\<close>

lemma length_concat_rows:
  "length (concat (map (\<lambda>i. map (f i) [0..<n]) is)) = length is * n"
  by (induction "is") simp_all

lemma concat_rows_nth:
  assumes "i < length is" and "j < n"
  shows "concat (map (\<lambda>i. map (f i) [0..<n]) is) ! (i * n + j) = f (is ! i) j"
  using assms
proof (induction "is" arbitrary: i)
  case Nil
  then show ?case by simp
next
  case (Cons a as)
  show ?case
  proof (cases i)
    case 0
    with Cons.prems show ?thesis by (simp add: nth_append)
  next
    case (Suc k)
    with Cons.prems have "k < length as" by simp
    from Cons.IH [OF this \<open>j < n\<close>] Suc show ?thesis
      by (simp add: nth_append add.assoc)
  qed
qed

lemma wf_tabulate2: "wf_array (tabulate2 m n f)"
  by (simp add: wf_array_def tabulate2_def length_concat_rows)

lemma shape_tabulate2: "nrows (tabulate2 m n f) = m" "ncols (tabulate2 m n f) = n"
  by (simp_all add: tabulate2_def)

lemma item_tabulate2: "i < m \<Longrightarrow> j < n \<Longrightarrow> item (tabulate2 m n f) i j = f i j"
  using concat_rows_nth [of i "[0..<m]" j n f]
  by (simp add: item_def tabulate2_def)

lemma first_max_lt: "xs \<noteq> [] \<Longrightarrow> first_max xs < length xs"
  by (induction xs rule: first_max.induct) (auto simp: Let_def)


lemma first_max_first: "i < first_max xs \<Longrightarrow> xs ! i < xs ! first_max xs"
proof (induction xs arbitrary: i rule: first_max.induct)
  case 1
  then show ?case by simp
next
  case (2 x)
  then show ?case by simp
next
  case (3 x y ys)
  let ?j = "first_max (y # ys)"
  from "3.prems" have big: "\<not> (y # ys) ! ?j \<le> x" and fm: "first_max (x # y # ys) = Suc ?j"
    by (auto simp: Let_def split: if_splits)
  show ?case
  proof (cases i)
    case 0
    with big fm show ?thesis by simp
  next
    case (Suc k)
    with "3.prems" fm have "k < ?j" by simp
    from "3.IH" [OF this] Suc fm show ?thesis by simp
  qed
qed

lemma le_or_nan_refl: "le_or_nan x x"
  by (simp add: le_or_nan_def split: float.splits)

lemma le_or_nan_total: "le_or_nan x y \<or> le_or_nan y x"
  by (auto simp: le_or_nan_def split: float.splits)

lemma le_or_nan_trans: "le_or_nan x y \<Longrightarrow> le_or_nan y z \<Longrightarrow> le_or_nan x z"
  by (auto simp: le_or_nan_def split: float.splits)

lemma first_min_lt: "xs \<noteq> [] \<Longrightarrow> first_min xs < length xs"
  by (induction xs rule: first_min.induct) (auto simp: Let_def)

lemma first_min_le: "i < length xs \<Longrightarrow> le_or_nan (xs ! first_min xs) (xs ! i)"
proof (induction xs arbitrary: i rule: first_min.induct)
  case 1
  then show ?case by simp
next
  case (2 x)
  then show ?case by (simp add: le_or_nan_refl)
next
  case (3 x y ys)
  let ?j = "first_min (y # ys)"
  show ?case
  proof (cases "le_or_nan x ((y # ys) ! ?j)")
    case True
    then have fm: "first_min (x # y # ys) = 0" by simp
    show ?thesis
    proof (cases i)
      case 0
      with fm show ?thesis by (simp add: le_or_nan_refl)
    next
      case (Suc k)
      with "3.prems" have "k < length (y # ys)" by simp
      from "3.IH" [OF this] True have "le_or_nan x ((y # ys) ! k)"
        by (blast intro: le_or_nan_trans)
      with fm Suc show ?thesis by simp
    qed
  next
    case False
    then have fm: "first_min (x # y # ys) = Suc ?j" by simp
    show ?thesis
    proof (cases i)
      case 0
      from False le_or_nan_total have "le_or_nan ((y # ys) ! ?j) x" by blast
      with fm 0 show ?thesis by simp
    next
      case (Suc k)
      with "3.prems" have "k < length (y # ys)" by simp
      from "3.IH" [OF this] fm Suc show ?thesis by simp
    qed
  qed
qed

lemma first_min_first: "i < first_min xs \<Longrightarrow> \<not> le_or_nan (xs ! i) (xs ! first_min xs)"
proof (induction xs arbitrary: i rule: first_min.induct)
  case 1
  then show ?case by simp
next
  case (2 x)
  then show ?case by simp
next
  case (3 x y ys)
  let ?j = "first_min (y # ys)"
  from "3.prems" have big: "\<not> le_or_nan x ((y # ys) ! ?j)"
    and fm: "first_min (x # y # ys) = Suc ?j"
    by (auto simp: Let_def split: if_splits)
  show ?case
  proof (cases i)
    case 0
    with big fm show ?thesis by simp
  next
    case (Suc k)
    with "3.prems" fm have "k < ?j" by simp
    from "3.IH" [OF this] Suc fm show ?thesis by simp
  qed
qed

lemma first_min_unique:
  assumes "k < length xs" and "\<forall>i < length xs. le_or_nan (xs ! k) (xs ! i)"
    and "\<forall>i < k. \<not> le_or_nan (xs ! i) (xs ! k)"
  shows "first_min xs = k"
proof -
  from assms(1) have ne: "xs \<noteq> []" by auto
  have "\<not> first_min xs < k"
    using assms(3) first_min_le [OF assms(1)] by blast
  moreover have "\<not> k < first_min xs"
    using first_min_first [of k xs] assms(2) first_min_lt [OF ne] by blast
  ultimately show ?thesis by simp
qed

section \<open>Circles from \<^verbatim>\<open>ellipsoid_in_cartesian\<close>\<close>

text \<open>
  Claim C8.  With \<open>axes_lengths = None\<close> and \<open>angle = None\<close> the function returns two
  arrays \<open>X\<close>, \<open>Y\<close> of shape \<open>(length r_list, length theta_list)\<close>, and every generated
  point lies on the circle of radius \<open>r_list ! i\<close> about the center:
  \<open>(X[i,j] - center[0])\<^sup>2 + (Y[i,j] - center[1])\<^sup>2 = (r_list ! i)\<^sup>2\<close>.
\<close>

theorem ellipsoid_in_cartesian_circle:
  "\<exists>X Y. ellipsoid_in_cartesian r_list theta_list center None None = Inr (X, Y)
     \<and> nrows X = length r_list \<and> ncols X = length theta_list \<and> wf_array X
     \<and> nrows Y = length r_list \<and> ncols Y = length theta_list \<and> wf_array Y
     \<and> (\<forall>i j. i < length r_list \<and> j < length theta_list \<longrightarrow>
           (item X i j - fst center)\<^sup>2 + (item Y i j - snd center)\<^sup>2 = (r_list ! i)\<^sup>2)"
proof -
  have "(r * sin t)\<^sup>2 + (r * cos t)\<^sup>2 = r\<^sup>2" for r t :: real
  proof -
    have "(r * sin t)\<^sup>2 + (r * cos t)\<^sup>2 = r\<^sup>2 * ((sin t)\<^sup>2 + (cos t)\<^sup>2)"
      by (simp only: power_mult_distrib distrib_left)
    also have "\<dots> = r\<^sup>2"
      by (simp only: sin_cos_squared_add mult_1_right)
    finally show ?thesis .
  qed
  then show ?thesis
    by (simp add: ellipsoid_in_cartesian_def Let_def shape_tabulate2 wf_tabulate2 item_tabulate2)
qed

theorem ellipsoid_in_cartesian_circle_witness:
  "\<exists>X Y. ellipsoid_in_cartesian [1, 2] [0, pi] (3, 4) None None = Inr (X, Y)
     \<and> nrows X = 2 \<and> ncols X = 2 \<and> item X 1 1 = 3 \<and> item Y 1 1 = 2
     \<and> (item X 1 1 - 3)\<^sup>2 + (item Y 1 1 - 4)\<^sup>2 = 2\<^sup>2"
  using ellipsoid_in_cartesian_circle [of "[1, 2]" "[0, pi]" "(3, 4)"]
  by (simp add: ellipsoid_in_cartesian_def Let_def shape_tabulate2 item_tabulate2)

section \<open>Shape and values of the polar image\<close>

lemma linspace_length:
  assumes "linspace start stop num = Inr xs"
  shows "0 \<le> num \<and> length xs = nat num"
  using assms by (auto simp: linspace_def split: if_splits)

lemma linspace_total: "0 \<le> num \<Longrightarrow> \<exists>xs. linspace start stop num = Inr xs"
  by (simp add: linspace_def)

lemma arange_length: "length (arange start stop) = nat (stop - start)"
  by (simp add: arange_def)

lemma ellipsoid_in_cartesian_shape:
  assumes "ellipsoid_in_cartesian r_list theta_list center axes_lengths angle = Inr (X, Y)"
  shows "nrows X = length r_list \<and> ncols X = length theta_list \<and> wf_array X
       \<and> nrows Y = length r_list \<and> ncols Y = length theta_list \<and> wf_array Y"
  using assms
  by (auto simp: ellipsoid_in_cartesian_def Let_def shape_tabulate2 wf_tabulate2
           split: option.splits if_splits)

lemma ellipsoid_in_cartesian_total:
  assumes "axes_ok axes_lengths"
  shows "\<exists>X Y. ellipsoid_in_cartesian r_list theta_list center axes_lengths angle = Inr (X, Y)"
  using assms
  by (auto simp: ellipsoid_in_cartesian_def axes_ok_def Let_def split: option.splits)

lemma masked_fill_total: "mask_ok img \<Longrightarrow> \<exists>img'. masked_fill img = Inr img'"
  by (auto simp: masked_fill_def mask_ok_def split: option.splits)

lemma ev_length:
  assumes "wf_array xi" and "wf_array yi" and "nrows yi = nrows xi" and "ncols yi = ncols xi"
  shows "length (buf (ev spline xi yi)) = nrows xi * ncols xi"
  using assms by (simp add: ev_def wf_array_def)

lemma reshape_exact:
  assumes "0 \<le> p" and "0 \<le> q" and "length (buf a) = nat p * nat q"
  shows "reshape a (p, q) = Inr \<lparr>nrows = nat p, ncols = nat q, buf = buf a\<rparr>"
  using assms by (simp add: reshape_def Let_def)

lemma reshape_nonneg_shape:
  assumes "reshape a (p, q) = Inr b" and "0 \<le> p" and "0 \<le> q"
  shows "nrows b = nat p \<and> ncols b = nat q \<and> wf_array b \<and> buf b = buf a"
  using assms by (auto simp: reshape_def Let_def wf_array_def split: if_splits)

lemma clamp_negative_shape:
  "nrows (clamp_negative a) = nrows a" "ncols (clamp_negative a) = ncols a"
  "wf_array (clamp_negative a) = wf_array a"
  by (simp_all add: clamp_negative_def wf_array_def)

lemma clamp_negative_values:
  assumes "v \<in> set (buf (clamp_negative a))" and "v \<noteq> NaN"
  shows "\<exists>r. v = Val r \<and> (0 \<le> r \<or> r = - 10)"
  using assms by (cases v) (auto simp: clamp_negative_def fless_def split: float.splits)

lemma clamp_negative_no_other_negative:
  assumes "v \<in> set (buf (clamp_negative a))" and "fless v (Val 0)"
  shows "v = Val (- 10)"
  using assms by (auto simp: clamp_negative_def fless_def split: float.splits if_splits)

text \<open>
  Every returned array went through \<open>reshape\<close> and \<open>clamp_negative\<close> after a successful
  \<open>final_the\<close>.
\<close>

lemma reproject_cartesian_to_polar_returns:
  assumes "reproject_cartesian_to_polar bispl img center angle lengths radius phase_width
             = (img', Inr out)"
  shows "\<exists>a b. 0 \<le> phase_width
           \<and> reshape a (snd radius - fst radius, phase_width) = Inr b
           \<and> out = clamp_negative b"
  using assms
  by (auto simp: reproject_cartesian_to_polar_def final_the_def Let_def
           dest: linspace_length split: sum.splits prod.splits)

lemma reproject_cartesian_to_polar_total:
  assumes r: "fst radius \<le> snd radius" and pw: "0 \<le> phase_width"
    and ax: "axes_ok lengths"
    and mf: "masked_fill img = Inr img1"
    and sp: "bispl [0..<ncols (data img)] [0..<nrows (data img)] (data img1) = Inr spline"
  shows "\<exists>out. reproject_cartesian_to_polar bispl img center angle lengths radius phase_width
                  = (img1, Inr out)"
proof -
  obtain thetas where th: "final_the phase_width = Inr thetas"
    using linspace_total [OF pw] by (auto simp: final_the_def)
  then have lth: "length thetas = nat phase_width"
    using linspace_length by (auto simp: final_the_def)
  define c where "c = (case center of None \<Rightarrow> default_center (data img) | Some c \<Rightarrow> c)"
  obtain X Y where xy: "ellipsoid_in_cartesian (map real_of_int (final_rad radius)) thetas
      c lengths angle = Inr (X, Y)"
    using ellipsoid_in_cartesian_total [OF ax] by blast
  from ellipsoid_in_cartesian_shape [OF xy]
  have "length (buf (ev spline X Y)) = nat (snd radius - fst radius) * nat phase_width"
    by (simp add: ev_length final_rad_def arange_length lth)
  with r pw have "reshape (ev spline X Y) (snd radius - fst radius, phase_width)
      = Inr \<lparr>nrows = nat (snd radius - fst radius), ncols = nat phase_width,
             buf = buf (ev spline X Y)\<rparr>"
    by (intro reshape_exact) simp_all
  with th xy mf sp show ?thesis
    by (simp add: reproject_cartesian_to_polar_def Let_def c_def)
qed

text \<open>
  Claim C2.  For every image, center, ellipse parameters and integer radius pair with
  \<open>radius[0] \<le> radius[1]\<close>, an array returned by \<open>reproject_cartesian_to_polar\<close> has
  shape \<open>(radius[1] - radius[0], phase_width)\<close>, whatever the data and the ellipse
  parameters; and the call does return an array, the empty range included, when
  \<open>phase_width\<close> is not negative, \<open>lengths\<close> is usable, the mask has the size of the data
  and the library builds the spline.
\<close>

theorem reproject_cartesian_to_polar_shape:
  assumes "fst radius \<le> snd radius"
  shows "(\<forall>img' out.
            reproject_cartesian_to_polar bispl img center angle lengths radius phase_width
              = (img', Inr out) \<longrightarrow>
            nrows out = nat (snd radius - fst radius) \<and> ncols out = nat phase_width
              \<and> wf_array out)
       \<and> (\<forall>img1 spline.
            0 \<le> phase_width \<and> axes_ok lengths \<and> masked_fill img = Inr img1
              \<and> bispl [0..<ncols (data img)] [0..<nrows (data img)] (data img1) = Inr spline
            \<longrightarrow> (\<exists>out.
                  reproject_cartesian_to_polar bispl img center angle lengths radius phase_width
                    = (img1, Inr out)))"
proof (rule conjI; intro allI impI)
  fix img' out
  assume "reproject_cartesian_to_polar bispl img center angle lengths radius phase_width
            = (img', Inr out)"
  from reproject_cartesian_to_polar_returns [OF this]
  obtain a b where "0 \<le> phase_width"
    and "reshape a (snd radius - fst radius, phase_width) = Inr b"
    and "out = clamp_negative b" by blast
  with assms reshape_nonneg_shape [of a "snd radius - fst radius" phase_width b]
  show "nrows out = nat (snd radius - fst radius) \<and> ncols out = nat phase_width
          \<and> wf_array out"
    by (simp add: clamp_negative_shape)
next
  fix img1 spline
  assume "0 \<le> phase_width \<and> axes_ok lengths \<and> masked_fill img = Inr img1
      \<and> bispl [0..<ncols (data img)] [0..<nrows (data img)] (data img1) = Inr spline"
  with assms reproject_cartesian_to_polar_total
  show "\<exists>out. reproject_cartesian_to_polar bispl img center angle lengths radius phase_width
                 = (img1, Inr out)"
    by blast
qed

text \<open>The reprojection of the sample image about the corner pixel, evaluated.\<close>

lemma final_the_2: "final_the 2 = Inr [0, 2 * pi]"
  by (simp add: final_the_def linspace_def upt_rec)

lemma final_rad_0_2: "final_rad (0, 2) = [0, 1]"
  by (simp add: final_rad_def arange_def upto.simps)

lemma ellipsoid_in_cartesian_sample:
  "ellipsoid_in_cartesian [0, 1] [0, 2 * pi] (0, 0) None None
     = Inr (\<lparr>nrows = 2, ncols = 2, buf = [0, 0, 0, 0]\<rparr>,
            \<lparr>nrows = 2, ncols = 2, buf = [0, 0, 1, 1]\<rparr>)"
  by (simp add: ellipsoid_in_cartesian_def tabulate2_def upt_rec)

lemma reproject_img_plain:
  "reproject_cartesian_to_polar RectBivariateSpline img_plain (Some (0, 0)) None None (0, 2) 2
     = (img_plain, Inr \<lparr>nrows = 2, ncols = 2, buf = [Val 5, Val 5, Val (- 10), Val (- 10)]\<rparr>)"
  by (simp add: reproject_cartesian_to_polar_def final_the_2 final_rad_0_2
        ellipsoid_in_cartesian_sample img_plain_def masked_fill_def RectBivariateSpline_def
        ev_def reshape_def clamp_negative_def bilinear_def item_def fless_def)

theorem reproject_cartesian_to_polar_shape_witness:
  "(0::int) \<le> 2
   \<and> reproject_cartesian_to_polar RectBivariateSpline img_plain (Some (0, 0)) None None (0, 2) 2
       = (img_plain, Inr \<lparr>nrows = 2, ncols = 2, buf = [Val 5, Val 5, Val (- 10), Val (- 10)]\<rparr>)
   \<and> nrows \<lparr>nrows = 2, ncols = 2, buf = [Val 5, Val 5, Val (- 10), Val (- 10)]\<rparr> = nat (2 - 0)
   \<and> ncols \<lparr>nrows = 2, ncols = 2, buf = [Val 5, Val 5, Val (- 10), Val (- 10)]\<rparr> = nat 2
   \<and> wf_array \<lparr>nrows = 2, ncols = 2, buf = [Val 5, Val 5, Val (- 10), Val (- 10)]\<rparr>"
  using reproject_cartesian_to_polar_shape
          [of "(0, 2)" RectBivariateSpline img_plain "Some (0, 0)" None None 2]
        reproject_img_plain
  by simp

text \<open>
  The empty range gives an array with no rows and \<open>phase_width\<close> columns.
\<close>

lemma reproject_empty_range:
  "reproject_cartesian_to_polar RectBivariateSpline img_plain (Some (0, 0)) None None (1, 1) 2
     = (img_plain, Inr \<lparr>nrows = 0, ncols = 2, buf = []\<rparr>)"
  by (simp add: reproject_cartesian_to_polar_def final_the_2 final_rad_def arange_def
        ellipsoid_in_cartesian_def tabulate2_def img_plain_def masked_fill_def
        RectBivariateSpline_def ev_def reshape_def clamp_negative_def)

text \<open>
  With the instance \<open>RectBivariateSpline\<close> the spline is built only for square images:
  the grid of column indices is passed for the first axis of the data.
\<close>

lemma masked_fill_shape:
  assumes "masked_fill img = Inr img'"
  shows "nrows (data img') = nrows (data img) \<and> ncols (data img') = ncols (data img)"
  using assms by (auto simp: masked_fill_def split: option.splits if_splits)

lemma reproject_not_square:
  assumes "nrows (data img) \<noteq> ncols (data img)"
  shows "\<exists>e. snd (reproject_cartesian_to_polar RectBivariateSpline img center angle lengths
                     radius phase_width) = Inl e"
proof -
  define c where "c = (case center of None \<Rightarrow> default_center (data img) | Some c \<Rightarrow> c)"
  have sp: "RectBivariateSpline [0..<ncols (data img)] [0..<nrows (data img)] (data img')
              = Inl ValueError"
    if "masked_fill img = Inr img'" for img'
    using masked_fill_shape [OF that] assms by (simp add: RectBivariateSpline_def)
  show ?thesis
  proof (cases "final_the phase_width")
    case (Inl e)
    then show ?thesis by (simp add: reproject_cartesian_to_polar_def Let_def)
  next
    case th: (Inr thetas)
    show ?thesis
    proof (cases "ellipsoid_in_cartesian (map real_of_int (final_rad radius)) thetas
                     c lengths angle")
      case (Inl e)
      with th show ?thesis by (simp add: reproject_cartesian_to_polar_def Let_def c_def)
    next
      case xy: (Inr p)
      show ?thesis
      proof (cases "masked_fill img")
        case (Inl e)
        with th xy show ?thesis
          by (simp add: reproject_cartesian_to_polar_def Let_def c_def split: prod.splits)
      next
        case (Inr img')
        with th xy sp [OF Inr] show ?thesis
          by (simp add: reproject_cartesian_to_polar_def Let_def c_def split: prod.splits)
      qed
    qed
  qed
qed

text \<open>
  Claim C9 as stated fails on an image with a NaN pixel: the interpolated samples are
  NaN, the comparison \<^verbatim>\<open>polar_img < 0\<close> is false for them, and the returned pixels are
  NaN, neither non-negative nor \<open>-10\<close>.
\<close>

theorem reproject_cartesian_to_polar_nan_counterexample:
  "reproject_cartesian_to_polar RectBivariateSpline img_nan (Some (0, 0)) None None (0, 2) 2
     = (img_nan, Inr \<lparr>nrows = 2, ncols = 2, buf = [NaN, NaN, NaN, NaN]\<rparr>)
   \<and> \<not> fle (Val 0) NaN \<and> NaN \<noteq> Val (- 10)"
  by (simp add: reproject_cartesian_to_polar_def final_the_2 final_rad_0_2
        ellipsoid_in_cartesian_sample img_nan_def masked_fill_def RectBivariateSpline_def
        ev_def reshape_def clamp_negative_def bilinear_def item_def fless_def fle_def)

text \<open>
  Claim C9, amended.  Every pixel of an array returned by \<open>reproject_cartesian_to_polar\<close>
  that is not NaN is non-negative or is the sentinel \<open>-10\<close>, and no returned pixel is
  negative other than \<open>-10\<close>: every interpolated value below zero, whatever its origin,
  has been replaced by \<open>-10\<close>.
\<close>

theorem reproject_cartesian_to_polar_nonneg_or_sentinel:
  assumes "reproject_cartesian_to_polar bispl img center angle lengths radius phase_width
             = (img', Inr out)"
  shows "\<forall>v \<in> set (buf out).
           (v \<noteq> NaN \<longrightarrow> (\<exists>r. v = Val r \<and> (0 \<le> r \<or> r = - 10)))
           \<and> (fless v (Val 0) \<longrightarrow> v = Val (- 10))"
proof -
  from reproject_cartesian_to_polar_returns [OF assms]
  obtain b where "out = clamp_negative b" by blast
  then show ?thesis
    using clamp_negative_values clamp_negative_no_other_negative by blast
qed

theorem reproject_cartesian_to_polar_nonneg_or_sentinel_witness:
  "reproject_cartesian_to_polar RectBivariateSpline img_plain (Some (0, 0)) None None (0, 2) 2
     = (img_plain, Inr \<lparr>nrows = 2, ncols = 2, buf = [Val 5, Val 5, Val (- 10), Val (- 10)]\<rparr>)
   \<and> list_all (\<lambda>v. v \<noteq> NaN \<and> (\<exists>r. v = Val r \<and> (0 \<le> r \<or> r = - 10)))
        (buf \<lparr>nrows = 2, ncols = 2, buf = [Val 5, Val 5, Val (- 10), Val (- 10)]\<rparr>)"
  using reproject_cartesian_to_polar_nonneg_or_sentinel [OF reproject_img_plain]
        reproject_img_plain
  by simp

section \<open>The input image after a reprojection\<close>

text \<open>
  An image without a mask is left as it was; an image with a mask leaves the call with
  the masked pixels of its own buffer overwritten, whatever the library does afterwards.
\<close>

lemma reproject_unmasked_unchanged:
  assumes "mask img = None"
  shows "fst (reproject_cartesian_to_polar bispl img center angle lengths radius phase_width)
           = img"
  using assms
  by (auto simp: reproject_cartesian_to_polar_def masked_fill_def Let_def
           split: sum.splits prod.splits)

lemma reproject_masked_overwrites:
  assumes "0 \<le> phase_width" and "axes_ok lengths" and "masked_fill img = Inr img1"
  shows "fst (reproject_cartesian_to_polar bispl img center angle lengths radius phase_width)
           = img1"
proof -
  obtain thetas where th: "final_the phase_width = Inr thetas"
    using linspace_total [OF assms(1)] by (auto simp: final_the_def)
  define c where "c = (case center of None \<Rightarrow> default_center (data img) | Some c \<Rightarrow> c)"
  obtain X Y where xy: "ellipsoid_in_cartesian (map real_of_int (final_rad radius)) thetas
      c lengths angle = Inr (X, Y)"
    using ellipsoid_in_cartesian_total [OF assms(2)] by blast
  show ?thesis
    using th assms(3) xy
    by (simp add: reproject_cartesian_to_polar_def Let_def c_def split: sum.splits)
qed

text \<open>
  Claim C5, evaluated on the masked sample image: the call returns the polar image and
  leaves \<open>- 999999\<close> in the caller's buffer at the masked pixel \<open>[1, 0]\<close>, which held \<open>2\<close>.
\<close>

theorem reproject_overwrites_masked_input:
  "reproject_cartesian_to_polar RectBivariateSpline img_masked (Some (0, 0)) None None (0, 2) 2
     = (img_masked\<lparr>data := \<lparr>nrows = 2, ncols = 2,
                               buf = [Val 5, Val (- 3), Val (- 999999), Val 7]\<rparr>\<rparr>,
        Inr \<lparr>nrows = 2, ncols = 2, buf = [Val 5, Val 5, Val (- 10), Val (- 10)]\<rparr>)
   \<and> buf (data img_masked) = [Val 5, Val (- 3), Val 2, Val 7]"
  by (simp add: reproject_cartesian_to_polar_def final_the_2 final_rad_0_2
        ellipsoid_in_cartesian_sample img_masked_def masked_fill_def RectBivariateSpline_def
        ev_def reshape_def clamp_negative_def bilinear_def item_def fless_def)

section \<open>The sampling grid of the reprojection\<close>

lemma final_rad_set: "set (final_rad (r0, r1)) = {r0..<r1}"
  by (auto simp: final_rad_def arange_def)

lemma final_rad_sorted: "sorted (final_rad radius) \<and> distinct (final_rad radius)"
  by (simp add: final_rad_def arange_def)

lemma final_the_endpoints:
  assumes "2 \<le> phase_width" and "final_the phase_width = Inr xs"
  shows "length xs = nat phase_width \<and> hd xs = 0 \<and> last xs = 2 * pi"
proof -
  from assms have xs: "xs = map (\<lambda>i. real i * (2 * pi / real (nat phase_width - 1)))
                               [0..<nat phase_width]"
    by (auto simp: final_the_def linspace_def)
  from assms(1) have n: "0 < nat phase_width" "nat phase_width - 1 \<noteq> 0" by auto
  then have ne: "[0..<nat phase_width] \<noteq> []" by simp
  have "last xs = real (nat phase_width - 1) * (2 * pi / real (nat phase_width - 1))"
    using ne n by (simp add: xs last_map)
  also have "\<dots> = 2 * pi" using n(2) by simp
  finally have l: "last xs = 2 * pi" .
  have "hd xs = 0" using ne n by (simp add: xs hd_map upt_conv_Cons)
  with l show ?thesis by (simp add: xs)
qed

lemma final_the_step:
  assumes "final_the phase_width = Inr xs" and "Suc i < nat phase_width"
  shows "xs ! Suc i - xs ! i = 2 * pi / real (nat phase_width - 1)"
proof -
  from assms have "phase_width \<noteq> 1" by auto
  with assms have xs: "xs = map (\<lambda>i. real i * (2 * pi / real (nat phase_width - 1)))
                               [0..<nat phase_width]"
    by (auto simp: final_the_def linspace_def split: if_splits)
  from assms(2) show ?thesis
    by (simp add: xs algebra_simps add_divide_distrib)
qed

text \<open>
  Claim C7, evaluated at \<open>phase_width = 4\<close>: the angular samples are \<open>0\<close>, \<open>2\<pi>/3\<close>,
  \<open>4\<pi>/3\<close> and \<open>2\<pi>\<close>, so \<open>2\<pi>\<close> is a sample and the step is \<open>2\<pi>/3\<close>, where the half-open
  interval of the claim asks for \<open>0\<close>, \<open>\<pi>/2\<close>, \<open>\<pi>\<close>, \<open>3\<pi>/2\<close>; the radial samples of
  the range \<open>(2, 5)\<close> are \<open>2\<close>, \<open>3\<close>, \<open>4\<close>.
\<close>

theorem final_the_includes_endpoint:
  "final_the 4 = Inr [0, 2 * pi / 3, 4 * pi / 3, 2 * pi] \<and> final_rad (2, 5) = [2, 3, 4]"
  by (simp add: final_the_def linspace_def final_rad_def arange_def upt_rec upto.simps)

section \<open>The blur estimate lies in the image\<close>




section \<open>Peaks near the edges and unknown configurations\<close>

lemma py_slice_length:
  "length (py_slice xs a b) =
     (let n = int (length xs);
          lo = (if a < 0 then max (a + n) 0 else min a n);
          hi = (if b < 0 then max (b + n) 0 else min b n)
      in nat (hi - lo))"
  by (auto simp: py_slice_def Let_def)

lemma window_outside_slice_short:
  assumes "c1 < length y1"
    and "int c1 - w < 0 \<or> int (length y1) - 1 < int c1 + w"
  shows "length (py_slice y1 (int c1 - w) (int c1 + w + 1)) \<noteq> nat (2 * w + 1)"
  using assms by (auto simp: py_slice_length Let_def split: if_splits)

lemma window_inside_slice_full:
  assumes "0 \<le> w" and "w \<le> int c1" and "int c1 + w < int (length y1)"
  shows "length (py_slice y1 (int c1 - w) (int c1 + w + 1)) = nat (2 * w + 1)"
  using assms by (auto simp: py_slice_length Let_def split: if_splits)

lemma interp1d_length_mismatch:
  "length y \<noteq> length x \<Longrightarrow> interp1d fit x y k = Inl ValueError"
  by (simp add: interp1d_def)

lemma interp1d_unknown_name:
  "length y = length x \<Longrightarrow> name \<notin> set known_kinds
     \<Longrightarrow> interp1d fit x y (KindName name) = Inl NotImplementedError"
  by (simp add: interp1d_def)

lemma smooth3_edge: "smooth3 [5, 1, 1] 1 = [4, 2, 1]"
  by (simp add: smooth3_def upt_rec)

lemma smooth3_middle: "smooth3 [1, 5, 9, 5, 1] 1 = [2, 5, 7, 5, 2]"
  by (simp add: smooth3_def upt_rec)

text \<open>
  A run through the refinement: the window \<open>[1, 3]\<close> around \<open>c1 = 2\<close> lies in the signal,
  the interpolant is evaluated at six points and the first of its two largest values has
  index \<open>2\<close>.
\<close>

lemma find_peak_max_refined:
  "find_peak_max smooth3 linear_fit [1, 5, 9, 5, 1] 1 2 1 (KindName ''linear'') = Inr 2"
  by (simp add: find_peak_max_def smooth3_middle argmax_def linspace_def interp1d_def
        py_slice_def known_kinds_def linear_fit_def upt_rec)

text \<open>
  Claim C4.  When the smoothed signal has the length of the signal and its argmax \<open>c1\<close>
  lies within \<open>window\<close> samples of either end, so that \<open>c1 - window < 0\<close> or
  \<open>c1 + window > length arr - 1\<close>, \<open>find_peak_max\<close> returns \<open>c1\<close> and raises nothing,
  whatever the upsampling factor, the kind and the fit are.
\<close>

theorem find_peak_max_near_edge:
  assumes "length (gaussian_filter1d arr sigma) = length arr"
    and "argmax (gaussian_filter1d arr sigma) = Inr c1"
    and "int c1 - window < 0 \<or> int (length arr) - 1 < int c1 + window"
  shows "find_peak_max gaussian_filter1d fit arr sigma upsample_factor window k
           = Inr (real c1)"
proof -
  define y1 where "y1 = gaussian_filter1d arr sigma"
  from assms(2) have ne: "y1 \<noteq> []" and c1: "c1 = first_max y1"
    by (auto simp: argmax_def y1_def split: if_splits)
  then have lt: "c1 < length y1" using first_max_lt by simp
  with assms(1,3) have w: "0 \<le> window" by (auto simp: y1_def)
  obtain r1 where r1: "linspace (real_of_int (int c1 - window)) (real_of_int (int c1 + window))
                         (2 * window + 1) = Inr r1"
    using linspace_total [of "2 * window + 1"] w by auto
  from linspace_length [OF r1] have "length r1 = nat (2 * window + 1)" by simp
  with window_outside_slice_short [OF lt, of window] assms(1,3)
  have "interp1d fit r1 (py_slice y1 (int c1 - window) (int c1 + window + 1)) k = Inl ValueError"
    by (intro interp1d_length_mismatch) (simp add: y1_def)
  with r1 assms(2) show ?thesis
    by (simp add: find_peak_max_def Let_def y1_def [symmetric])
qed

theorem find_peak_max_near_edge_witness:
  "length (smooth3 [5, 1, 1] 1) = length [5, 1, 1 :: real]
   \<and> argmax (smooth3 [5, 1, 1] 1) = Inr 0
   \<and> int 0 - 10 < 0
   \<and> find_peak_max smooth3 linear_fit [5, 1, 1] 1 50 10 (KindOrder 3) = Inr (real 0)"
  using find_peak_max_near_edge [of smooth3 "[5, 1, 1]" 1 0 10 linear_fit 50 "KindOrder 3"]
  by (simp add: smooth3_edge argmax_def)

text \<open>
  Claim C6 as stated fails: near an edge the length check of \<open>interp1d\<close> raises the
  \<^verbatim>\<open>ValueError\<close> that \<open>find_peak_max\<close> catches before the kind is looked at, and the
  call returns \<open>c1\<close> for an unknown kind.
\<close>

theorem find_peak_max_unknown_kind_counterexample:
  "find_peak_max smooth3 linear_fit [5, 1, 1] 1 50 10 (KindName ''bogus'') = Inr 0
   \<and> ''bogus'' \<notin> set known_kinds"
  by (simp add: find_peak_max_def smooth3_edge argmax_def linspace_def interp1d_def
        py_slice_def known_kinds_def)

text \<open>
  Claim C6, amended.  When the window \<open>[c1 - window, c1 + window]\<close> lies inside the
  smoothed signal, \<open>find_peak_max\<close> with a kind name that \<open>interp1d\<close> does not know raises
  \<^verbatim>\<open>NotImplementedError\<close>; and \<open>subtract_background_median\<close> with an implementation
  other than \<^verbatim>\<open>'scipy'\<close> and \<^verbatim>\<open>'skimage'\<close> raises \<^verbatim>\<open>ValueError\<close>.
\<close>

theorem find_peak_max_unknown_kind:
  "(0 \<le> window \<and> argmax (gaussian_filter1d arr sigma) = Inr c1
      \<and> window \<le> int c1 \<and> int c1 + window < int (length (gaussian_filter1d arr sigma))
      \<and> name \<notin> set known_kinds
    \<longrightarrow> find_peak_max gaussian_filter1d fit arr sigma upsample_factor window (KindName name)
          = Inl NotImplementedError)
   \<and> (implementation \<noteq> ''scipy'' \<and> implementation \<noteq> ''skimage''
    \<longrightarrow> subtract_background_median median_filter skimage_median subtract z footprint
          implementation = Inl ValueError)"
proof (rule conjI; intro impI)
  assume a: "0 \<le> window \<and> argmax (gaussian_filter1d arr sigma) = Inr c1
      \<and> window \<le> int c1 \<and> int c1 + window < int (length (gaussian_filter1d arr sigma))
      \<and> name \<notin> set known_kinds"
  define y1 where "y1 = gaussian_filter1d arr sigma"
  obtain r1 where r1: "linspace (real_of_int (int c1 - window)) (real_of_int (int c1 + window))
                         (2 * window + 1) = Inr r1"
    using linspace_total [of "2 * window + 1"] a by auto
  from linspace_length [OF r1] have "length r1 = nat (2 * window + 1)" by simp
  with window_inside_slice_full [of window c1 y1] a
  have "interp1d fit r1 (py_slice y1 (int c1 - window) (int c1 + window + 1)) (KindName name)
          = Inl NotImplementedError"
    by (intro interp1d_unknown_name) (simp_all add: y1_def)
  with r1 a show "find_peak_max gaussian_filter1d fit arr sigma upsample_factor window
      (KindName name) = Inl NotImplementedError"
    by (simp add: find_peak_max_def Let_def y1_def [symmetric])
next
  assume "implementation \<noteq> ''scipy'' \<and> implementation \<noteq> ''skimage''"
  then show "subtract_background_median median_filter skimage_median subtract z footprint
          implementation = Inl ValueError"
    by (simp add: subtract_background_median_def)
qed

theorem find_peak_max_unknown_kind_witness:
  "(0::int) \<le> 2 \<and> argmax (smooth3 [1, 5, 9, 5, 1] 1) = Inr 2
   \<and> (2::int) \<le> int 2 \<and> int 2 + 2 < int (length (smooth3 [1, 5, 9, 5, 1] 1))
   \<and> ''bogus'' \<notin> set known_kinds
   \<and> find_peak_max smooth3 linear_fit [1, 5, 9, 5, 1] 1 50 2 (KindName ''bogus'')
       = Inl NotImplementedError
   \<and> ''opencv'' \<noteq> ''scipy'' \<and> ''opencv'' \<noteq> ''skimage''
   \<and> subtract_background_median (\<lambda>z n. z) (\<lambda>z n. z) minus_array img_2x3 19 ''opencv''
       = Inl ValueError"
  using find_peak_max_unknown_kind
          [of 2 smooth3 "[1, 5, 9, 5, 1]" 1 2 "''bogus''" linear_fit 50 "''opencv''"
              "\<lambda>z n. z" "\<lambda>z n. z" minus_array img_2x3 19]
  by (simp add: smooth3_middle argmax_def known_kinds_def)

section \<open>The radius search of the cross-correlation estimate\<close>

lemma arange_nth: "i < nat (stop - start) \<Longrightarrow> arange start stop ! i = start + int i"
  by (simp add: arange_def)

text \<open>
  The passes \<open>k, \<dots>, n - 1\<close> of the loop leave the entries of \<open>errRecord\<close> below \<open>k\<close> as
  they were and store in the others the converted errors of their radii; \<open>index_min\<close> is
  the \<open>argmin\<close> of the array after the last pass.
\<close>

lemma radius_loop_run:
  assumes win: "\<forall>i < length rl. windowed_pair ep z (rl ! i) = Inr (ref (rl ! i), im (rl ! i))"
    and reg: "\<forall>i < length rl. rt (ref (rl ! i)) (im (rl ! i)) 10
                = Inr (sh (rl ! i), er (rl ! i), dp (rl ! i))"
    and len: "length rec = length rl" and k: "k \<le> length rl"
  shows "radius_loop ep rt single z rl [k..<length rl] (rec, idx)
           = Inr (take k rec @ map (\<lambda>r. single (er r)) (drop k rl),
                  if k < length rl
                  then Some (first_min (take k rec @ map (\<lambda>r. single (er r)) (drop k rl)))
                  else idx)"
  using len k
proof (induction "length rl - k" arbitrary: k rec idx)
  case 0
  then show ?case by simp
next
  case (Suc d)
  then have kn: "k < length rl" by simp
  define rec' where "rec' = rec[k := single (er (rl ! k))]"
  have len': "length rec' = length rl" using Suc.prems by (simp add: rec'_def)
  have ne: "rec' \<noteq> []" using len' kn by auto
  have same: "take (Suc k) rec' @ map (\<lambda>r. single (er r)) (drop (Suc k) rl)
            = take k rec @ map (\<lambda>r. single (er r)) (drop k rl)"
  proof -
    have "take (Suc k) rec' = take k rec @ [single (er (rl ! k))]"
      using kn Suc.prems by (simp add: rec'_def take_Suc_conv_app_nth)
    moreover have "drop k rl = rl ! k # drop (Suc k) rl"
      using kn by (simp add: Cons_nth_drop_Suc)
    ultimately show ?thesis by simp
  qed
  have d: "d = length rl - Suc k" using Suc.hyps by simp
  have w: "windowed_pair ep z (rl ! k) = Inr (ref (rl ! k), im (rl ! k))"
    using win kn by blast
  have tr: "rt (ref (rl ! k)) (im (rl ! k)) 10 = Inr (sh (rl ! k), er (rl ! k), dp (rl ! k))"
    using reg kn by blast
  have step: "radius_loop ep rt single z rl [k..<length rl] (rec, idx)
                = radius_loop ep rt single z rl [Suc k..<length rl]
                    (rec', Some (first_min rec'))"
  proof -
    from ne have "rec \<noteq> []" by (auto simp: rec'_def)
    then show ?thesis
      by (simp add: upt_conv_Cons [OF kn] w tr rec'_def [symmetric] argmin_def)
  qed
  have ih: "radius_loop ep rt single z rl [Suc k..<length rl] (rec', Some (first_min rec'))
          = Inr (take (Suc k) rec' @ map (\<lambda>r. single (er r)) (drop (Suc k) rl),
                 if Suc k < length rl
                 then Some (first_min
                   (take (Suc k) rec' @ map (\<lambda>r. single (er r)) (drop (Suc k) rl)))
                 else Some (first_min rec'))"
    using kn by (intro Suc.hyps(1) [OF d len']) simp
  show ?case
  proof (cases "Suc k < length rl")
    case True
    with kn show ?thesis unfolding step ih same by simp
  next
    case False
    with kn have "Suc k = length rl" by simp
    then have "take (Suc k) rec' @ map (\<lambda>r. single (er r)) (drop (Suc k) rl) = rec'"
      using len' by simp
    with same have "rec' = take k rec @ map (\<lambda>r. single (er r)) (drop k rl)" by simp
    with False kn show ?thesis unfolding step ih same by simp
  qed
qed

lemma radius_loop_all:
  assumes win: "\<forall>i < length rl. windowed_pair ep z (rl ! i) = Inr (ref (rl ! i), im (rl ! i))"
    and reg: "\<forall>i < length rl. rt (ref (rl ! i)) (im (rl ! i)) 10
                = Inr (sh (rl ! i), er (rl ! i), dp (rl ! i))"
    and ne: "rl \<noteq> []"
  shows "radius_loop ep rt single z rl [0..<length rl] (replicate (length rl) (Val 0), None)
           = Inr (map (\<lambda>r. single (er r)) rl, Some (first_min (map (\<lambda>r. single (er r)) rl)))"
proof -
  have "radius_loop ep rt single z rl [0..<length rl] (replicate (length rl) (Val 0), None)
      = Inr (take 0 (replicate (length rl) (Val 0)) @ map (\<lambda>r. single (er r)) (drop 0 rl),
             if 0 < length rl
             then Some (first_min
               (take 0 (replicate (length rl) (Val 0)) @ map (\<lambda>r. single (er r)) (drop 0 rl)))
             else None)"
    by (intro radius_loop_run [where ep = ep and z = z and rl = rl and ref = ref and im = im
          and rt = rt and sh = sh and er = er and dp = dp, OF win reg]) simp_all
  with ne show ?thesis by simp
qed

text \<open>
  The search returns the shift of the registration with factor \<open>100\<close> at the radius that
  \<open>argmin\<close> prefers: the first radius whose recorded error is NaN or, when there is none,
  the smallest radius of minimal recorded error.
\<close>

lemma find_beam_offset_cross_correlation_argmin:
  assumes range: "radius_start < radius_finish"
    and windows: "\<forall>r \<in> {radius_start..<radius_finish}.
        windowed_pair ellipse_perimeter z r = Inr (ref r, im r)"
    and coarse: "\<forall>r \<in> {radius_start..<radius_finish}.
        register_translation (ref r) (im r) 10 = Inr (sh r, er r, dp r)"
    and best: "best \<in> {radius_start..<radius_finish}"
    and minimal: "\<forall>r \<in> {radius_start..<radius_finish}.
        le_or_nan (single (er best)) (single (er r))"
    and smallest: "\<forall>r \<in> {radius_start..<radius_finish}.
        r < best \<longrightarrow> \<not> le_or_nan (single (er r)) (single (er best))"
    and fine: "register_translation (ref best) (im best) 100 = Inr (shift, err, diffphase)"
  shows "find_beam_offset_cross_correlation ellipse_perimeter register_translation single z
           radius_start radius_finish = Inr (fst shift - 1 / 2, snd shift - 1 / 2)"
proof -
  define rl where "rl = arange radius_start radius_finish"
  define n where "n = nat (radius_finish - radius_start)"
  define recorded where "recorded = map (\<lambda>r. single (er r)) rl"
  have len: "length rl = n" by (simp add: rl_def n_def arange_length)
  have nth: "rl ! i = radius_start + int i" if "i < n" for i
    using that by (simp add: rl_def n_def arange_nth)
  have ne: "rl \<noteq> []" using range len by (auto simp: n_def)
  have mem: "rl ! i \<in> {radius_start..<radius_finish}" if "i < length rl" for i
    using that len nth by (simp add: n_def)
  have win: "\<forall>i < length rl. windowed_pair ellipse_perimeter z (rl ! i)
               = Inr (ref (rl ! i), im (rl ! i))"
    using windows mem by blast
  have reg: "\<forall>i < length rl. register_translation (ref (rl ! i)) (im (rl ! i)) 10
               = Inr (sh (rl ! i), er (rl ! i), dp (rl ! i))"
    using coarse mem by blast
  define kb where "kb = nat (best - radius_start)"
  have kbn: "kb < n" using best by (simp add: kb_def n_def)
  have kbr: "rl ! kb = best" using nth [OF kbn] best by (simp add: kb_def)
  have rec_nth: "recorded ! i = single (er (radius_start + int i))" if "i < n" for i
    using that len nth by (simp add: recorded_def)
  have "first_min recorded = kb"
  proof (rule first_min_unique)
    show "kb < length recorded" using kbn len by (simp add: recorded_def)
    show "\<forall>i < length recorded. le_or_nan (recorded ! kb) (recorded ! i)"
    proof (intro allI impI)
      fix i assume "i < length recorded"
      then have i: "i < n" using len by (simp add: recorded_def)
      then have "radius_start + int i \<in> {radius_start..<radius_finish}" by (simp add: n_def)
      with minimal have "le_or_nan (single (er best)) (single (er (radius_start + int i)))"
        by blast
      with rec_nth [OF i] rec_nth [OF kbn] kbr nth [OF kbn]
      show "le_or_nan (recorded ! kb) (recorded ! i)" by simp
    qed
    show "\<forall>i < kb. \<not> le_or_nan (recorded ! i) (recorded ! kb)"
    proof (intro allI impI)
      fix i assume ik: "i < kb"
      with kbn have i: "i < n" by simp
      then have "radius_start + int i \<in> {radius_start..<radius_finish}" by (simp add: n_def)
      moreover have "radius_start + int i < best" using ik best by (simp add: kb_def)
      ultimately have "\<not> le_or_nan (single (er (radius_start + int i))) (single (er best))"
        using smallest by blast
      with rec_nth [OF i] rec_nth [OF kbn] kbr nth [OF kbn]
      show "\<not> le_or_nan (recorded ! i) (recorded ! kb)" by simp
    qed
  qed
  moreover have "windowed_pair ellipse_perimeter z best = Inr (ref best, im best)"
    using windows best by blast
  ultimately show ?thesis
    using radius_loop_all [where ep = ellipse_perimeter and z = z and rl = rl and ref = ref
        and im = im and rt = register_translation and sh = sh and er = er and dp = dp
        and single = single, OF win reg ne] kbr fine
    by (simp add: find_beam_offset_cross_correlation_def Let_def rl_def [symmetric]
          recorded_def)
qed

text \<open>
  When a recorded error is NaN, the search settles on the first radius recorded as NaN.
\<close>

lemma find_beam_offset_cross_correlation_first_nan:
  assumes range: "radius_start < radius_finish"
    and windows: "\<forall>r \<in> {radius_start..<radius_finish}.
        windowed_pair ellipse_perimeter z r = Inr (ref r, im r)"
    and coarse: "\<forall>r \<in> {radius_start..<radius_finish}.
        register_translation (ref r) (im r) 10 = Inr (sh r, er r, dp r)"
    and best: "best \<in> {radius_start..<radius_finish}"
    and nan: "single (er best) = NaN"
    and first: "\<forall>r \<in> {radius_start..<radius_finish}. r < best \<longrightarrow> single (er r) \<noteq> NaN"
    and fine: "register_translation (ref best) (im best) 100 = Inr (shift, err, diffphase)"
  shows "find_beam_offset_cross_correlation ellipse_perimeter register_translation single z
           radius_start radius_finish = Inr (fst shift - 1 / 2, snd shift - 1 / 2)"
proof (rule find_beam_offset_cross_correlation_argmin [OF range windows coarse best _ _ fine])
  show "\<forall>r \<in> {radius_start..<radius_finish}. le_or_nan (single (er best)) (single (er r))"
    using nan by (simp add: le_or_nan_def)
  show "\<forall>r \<in> {radius_start..<radius_finish}.
          r < best \<longrightarrow> \<not> le_or_nan (single (er r)) (single (er best))"
    using nan first by (auto simp: le_or_nan_def split: float.splits)
qed

text \<open>The search on the five by five images, evaluated.\<close>

lemma origin_5x5: "origin_of ring_5x5 = [(2, 2)]" "origin_of ring_dot_5x5 = [(2, 2)]"
  by (simp_all add: origin_of_def ring_5x5_def ring_dot_5x5_def py_round_def)

lemma shape_5x5:
  "nrows ring_5x5 = 5" "ncols ring_5x5 = 5" "nrows ring_dot_5x5 = 5" "ncols ring_dot_5x5 = 5"
  by (simp_all add: ring_5x5_def ring_dot_5x5_def)

lemma hanning_5: "hanning 5 = [0, 1 / 2, 1, 1 / 2, 0]"
proof -
  have u: "[0..<5] = [0, 1, 2, 3, 4]" by (simp add: upt_rec)
  have c1: "cos (2 * pi * real (1::nat) / real (5 - 1 :: nat)) = 0"
  proof -
    have "2 * pi * real (1::nat) / real (5 - 1 :: nat) = pi / 2" by simp
    then show ?thesis by (simp only: cos_pi_half)
  qed
  have c2: "cos (2 * pi * real (2::nat) / real (5 - 1 :: nat)) = - 1"
  proof -
    have "2 * pi * real (2::nat) / real (5 - 1 :: nat) = pi" by simp
    then show ?thesis by (simp only: cos_pi)
  qed
  have c3: "cos (2 * pi * real (3::nat) / real (5 - 1 :: nat)) = 0"
  proof -
    have "2 * pi * real (3::nat) / real (5 - 1 :: nat) = pi + pi / 2" by simp
    then have "cos (2 * pi * real (3::nat) / real (5 - 1 :: nat)) = cos (pi + pi / 2)"
      by (simp only:)
    also have "\<dots> = 0" by (simp only: cos_add) simp
    finally show ?thesis .
  qed
  have c4: "cos (2 * pi * real (4::nat) / real (5 - 1 :: nat)) = 1"
  proof -
    have "2 * pi * real (4::nat) / real (5 - 1 :: nat) = 2 * pi" by simp
    then show ?thesis by (simp only: cos_two_pi)
  qed
  have c0: "cos (2 * pi * real (0::nat) / real (5 - 1 :: nat)) = 1" by simp
  have "hanning 5 = map (\<lambda>n. 1 / 2 - 1 / 2 * cos (2 * pi * real n / real (5 - 1 :: nat)))
      [0, 1, 2, 3, 4]"
    by (simp add: hanning_def u del: of_nat_diff)
  also have "\<dots> = [0, 1 / 2, 1, 1 / 2, 0]"
    unfolding list.map c0 c1 c2 c3 c4 by simp
  finally show ?thesis .
qed

lemma hann2d_5:
  "tabulate2 (length (hanning 5)) (length (hanning 5))
       (\<lambda>i j. sqrt (hanning 5 ! i * hanning 5 ! j))
     = \<lparr>nrows = 5, ncols = 5,
        buf = [0, 0, 0, 0, 0,
               0, sqrt (1 / 4), sqrt (1 / 2), sqrt (1 / 4), 0,
               0, sqrt (1 / 2), 1, sqrt (1 / 2), 0,
               0, sqrt (1 / 4), sqrt (1 / 2), sqrt (1 / 4), 0,
               0, 0, 0, 0, 0]\<rparr>"
  by (simp add: hanning_5 tabulate2_def upt_rec)


lemma circle_1: "reference_circle axis_points [(2, 2)] 5 5 1 = Inr ring_5x5"
  by (simp add: reference_circle_def axis_points_def wrap_index_def ring_5x5_def
        numeral_eq_Suc)

lemma circle_2:
  "reference_circle axis_points [(2, 2)] 5 5 2
     = Inr \<lparr>nrows = 5, ncols = 5,
             buf = [0, 0, 1, 0, 0,
                    0, 0, 0, 0, 0,
                    1, 0, 0, 0, 1,
                    0, 0, 0, 0, 0,
                    0, 0, 1, 0, 0]\<rparr>"
  by (simp add: reference_circle_def axis_points_def wrap_index_def numeral_eq_Suc)

lemma windowed_ring_1: "windowed_pair axis_points ring_5x5 1 = Inr (ring_windowed, ring_windowed)"
  by (simp add: windowed_pair_def origin_5x5 shape_5x5 circle_1 Let_def hann2d_5
        times_array_def)
     (simp add: ring_5x5_def ring_windowed_def hann2d_5)

lemma windowed_ring_2: "windowed_pair axis_points ring_5x5 2 = Inr (zeros_5x5, ring_windowed)"
  by (simp add: windowed_pair_def origin_5x5 shape_5x5 circle_2 Let_def hann2d_5
        times_array_def)
     (simp add: ring_5x5_def ring_windowed_def zeros_5x5_def hann2d_5 numeral_eq_Suc)



lemma mismatch_ring_ring:
  "count_mismatch ring_windowed ring_windowed up = Inr ((0, 0), Val 0, 0)"
  by (simp add: count_mismatch_def ring_windowed_def)

lemma mismatch_zeros_ring:
  "count_mismatch zeros_5x5 ring_windowed 10 = Inr ((2 / 5, 2 / 5), NaN, 0)"
  "count_mismatch zeros_5x5 ring_windowed 100 = Inr ((1 / 25, 1 / 25), NaN, 0)"
  by (simp_all add: count_mismatch_def ring_windowed_def zeros_5x5_def numeral_eq_Suc)







text \<open>
  A windowed pair whose circle leaves the image raises \<^verbatim>\<open>IndexError\<close>, and so does the
  search over a range that holds such a radius.
\<close>

lemma circle_3_outside: "reference_circle axis_points [(2, 2)] 5 5 3 = Inl IndexError"
  by (simp add: reference_circle_def axis_points_def wrap_index_def)

lemma find_beam_offset_circle_outside:
  "find_beam_offset_cross_correlation axis_points count_mismatch (\<lambda>e. e) ring_5x5 1 4
     = Inl IndexError"
proof -
  have "windowed_pair axis_points ring_5x5 3 = Inl IndexError"
    by (simp add: windowed_pair_def origin_5x5 shape_5x5 circle_3_outside)
  then show ?thesis
    by (simp add: find_beam_offset_cross_correlation_def arange_def upto.simps argmin_def
          windowed_ring_1 windowed_ring_2 mismatch_ring_ring mismatch_zeros_ring)
qed

end
